theory Spec2Isabelle
  imports Main "HOL-Library.AList" "HOL-Library.Sublist"
begin

section \<open>The result-orchestration layer of actionlint-mcp (main.go)\<close>

text \<open>
  The two tool handlers of \<^verbatim>\<open>main.go\<close>, \<^verbatim>\<open>LintWorkflow\<close> and
  \<^verbatim>\<open>CheckAllWorkflows\<close>, are embedded as HOL functions.  Everything they call
  outside the repository (the file system, the process environment, the actionlint
  engine, \<^verbatim>\<open>encoding/json\<close>, \<^verbatim>\<open>path/filepath\<close>) is a field of a record
  \<open>world\<close> that the handlers take as a parameter; no behaviour of these libraries is
  built into the definitions.  The handlers only read from the world, so one call sees one
  fixed \<open>world\<close>.  Beside its Go return value each handler returns the list of external
  calls it made, in program order, so that "reads no file" and "passes this content to the
  engine" are statements about that list.
\<close>

subsection \<open>Data model\<close>

text \<open>
  A Go \<^verbatim>\<open>error\<close> is represented by its \<^verbatim>\<open>Error()\<close> text; \<^verbatim>\<open>fmt.Errorf("p: %w", err)\<close>
  and \<^verbatim>\<open>fmt.Sprintf("p: %v", err)\<close> both produce the prefix followed by that text.
  A Go \<^verbatim>\<open>string\<close> and a \<^verbatim>\<open>[]byte\<close> are both byte sequences, here \<open>string\<close>.
\<close>

type_synonym error = string

text \<open>
  \<^verbatim>\<open>LintWorkflowParams\<close> and \<^verbatim>\<open>CheckAllWorkflowsParams\<close>; the fields carry their
  JSON names (\<^verbatim>\<open>file_path\<close>, \<^verbatim>\<open>content\<close>, \<^verbatim>\<open>directory\<close>), since the Go names
  \<^verbatim>\<open>FilePath\<close> and \<^verbatim>\<open>Content\<close> are also fields of the result types below.
\<close>

record LintWorkflowParams =
  file_path :: string
  content :: string

record CheckAllWorkflowsParams =
  directory :: string

record LintError =
  Message :: string
  Line :: int
  Column :: int
  Kind :: string
  Severity :: string

record LintResult =
  Errors :: "LintError list"
  Valid :: bool
  FilePath :: string

text \<open>
  \<^verbatim>\<open>mcp.CallToolResultFor[any]\<close> with its \<^verbatim>\<open>Content\<close> slice.  The handlers only build
  \<^verbatim>\<open>*mcp.TextContent\<close> blocks; \<open>OtherContent\<close> stands for every other implementation
  of the \<^verbatim>\<open>mcp.Content\<close> interface, which the type assertion in
  \<^verbatim>\<open>CheckAllWorkflows\<close> rejects.
\<close>

datatype Content = TextContent (Text: string) | OtherContent

record CallToolResult =
  Content :: "Content list"

text \<open>
  The part of \<^verbatim>\<open>actionlint.Error\<close> and \<^verbatim>\<open>actionlint.LinterOptions\<close> that
  \<^verbatim>\<open>main.go\<close> reads or writes.  The field names of the engine's diagnostic are prefixed
  with \<open>e\<close>, its Go fields being \<^verbatim>\<open>Message\<close>, \<^verbatim>\<open>Line\<close>, \<^verbatim>\<open>Column\<close>, \<^verbatim>\<open>Kind\<close>.
\<close>

record actionlint_Error =
  eMessage :: string
  eLine :: int
  eColumn :: int
  eKind :: string

record LinterOptions =
  Shellcheck :: string
  Pyflakes :: string
  ConfigFile :: string
  IgnorePatterns :: "string list"

text \<open>
  A linter as \<^verbatim>\<open>actionlint.NewLinter\<close> returns it is used through one method,
  \<^verbatim>\<open>Lint(filepath, content, nil)\<close>, which returns the diagnostics or an error.
\<close>

type_synonym linter = "string \<Rightarrow> string \<Rightarrow> error + actionlint_Error list"

text \<open>
  The summary that \<^verbatim>\<open>CheckAllWorkflows\<close> builds as a \<^verbatim>\<open>map[string]interface{}\<close>
  with four fixed keys.  \<^verbatim>\<open>allResults\<close>, a \<^verbatim>\<open>map[string]LintResult\<close>, is an
  association list in which \<open>AList.update\<close> stores a key: it overwrites the entry of a key
  that is present and adds one otherwise, as the Go assignment \<^verbatim>\<open>allResults[file] = r\<close>
  does.  Go ranges over a map in an unspecified order; the only loop that does so sums two
  counters, which no order changes.
\<close>

record Summary =
  total_files :: int
  files_with_errors :: int
  total_errors :: int
  results :: "(string \<times> LintResult) list"

subsection \<open>The world outside the repository\<close>

text \<open>
  \<open>os_Stat_IsNotExist w p\<close> is \<^verbatim>\<open>os.IsNotExist(err)\<close> for the \<^verbatim>\<open>err\<close> of
  \<^verbatim>\<open>os.Stat(p)\<close>.  \<open>filepath_Glob\<close> returns both Go results, the matches and the error
  (\<open>None\<close> for \<^verbatim>\<open>nil\<close>), because the caller drops the error and uses the matches.
  The three JSON functions are \<^verbatim>\<open>json.MarshalIndent(v, "", "  ")\<close> at the two types it
  is called at and \<^verbatim>\<open>json.Unmarshal\<close> into a zero \<^verbatim>\<open>LintResult\<close>.
\<close>

record world =
  os_ReadFile :: "string \<Rightarrow> error + string"
  os_Stat_IsNotExist :: "string \<Rightarrow> bool"
  os_Getenv :: "string \<Rightarrow> string"
  actionlint_NewLinter :: "LinterOptions \<Rightarrow> error + linter"
  json_MarshalIndent_LintResult :: "LintResult \<Rightarrow> error + string"
  json_MarshalIndent_Summary :: "Summary \<Rightarrow> error + string"
  json_Unmarshal_LintResult :: "string \<Rightarrow> error + LintResult"
  filepath_Join :: "string \<Rightarrow> string \<Rightarrow> string"
  filepath_Glob :: "string \<Rightarrow> string list \<times> error option"

text \<open>The external calls a handler makes, with their arguments.\<close>

datatype call =
    Call_ReadFile string
  | Call_Stat string
  | Call_Getenv string
  | Call_NewLinter LinterOptions
  | Call_Lint string string
  | Call_Glob string

subsection \<open>LintWorkflow\<close>

text \<open>
  Lines 54--66: the \<^verbatim>\<open>switch\<close> that resolves the input.  The first case that holds
  wins: a non-empty \<^verbatim>\<open>FilePath\<close> is read from disk, otherwise a non-empty
  \<^verbatim>\<open>Content\<close> is used under the name \<^verbatim>\<open>inline.yml\<close>, otherwise the call fails.
  The value is the pair \<open>(filePath, content)\<close>.
\<close>

definition resolve_input ::
  "world \<Rightarrow> LintWorkflowParams \<Rightarrow> (error + string \<times> string) \<times> call list" where
  "resolve_input w params =
     (if file_path params \<noteq> [] then
        (case os_ReadFile w (file_path params) of
           Inl err \<Rightarrow> (Inl (''failed to read file: '' @ err), [Call_ReadFile (file_path params)])
         | Inr bytes \<Rightarrow> (Inr (file_path params, bytes), [Call_ReadFile (file_path params)]))
      else if content params \<noteq> [] then
        (Inr (''inline.yml'', content params), [])
      else
        (Inl ''either file_path or content must be provided'', []))"

text \<open>Lines 111--118: the severity of a diagnostic, from its kind.\<close>

definition severity_of :: "string \<Rightarrow> string" where
  "severity_of kind =
     (if kind = ''syntax-check'' \<or> kind = ''type-check'' then ''error''
      else if kind = ''shellcheck'' \<or> kind = ''pyflakes'' then ''warning''
      else ''info'')"

text \<open>Lines 101--118: the \<^verbatim>\<open>LintError\<close> built from one engine diagnostic.\<close>

definition convert_error :: "actionlint_Error \<Rightarrow> LintError" where
  "convert_error e =
     \<lparr>Message = eMessage e, Line = eLine e, Column = eColumn e, Kind = eKind e,
      Severity = severity_of (eKind e)\<rparr>"

text \<open>
  Lines 100--121: the loop over \<^verbatim>\<open>errs\<close>, appending to \<^verbatim>\<open>result.Errors\<close>.
\<close>

fun convert_errors :: "actionlint_Error list \<Rightarrow> LintResult \<Rightarrow> LintResult" where
  "convert_errors [] result = result"
| "convert_errors (e # errs) result =
     convert_errors errs (result\<lparr>Errors := Errors result @ [convert_error e]\<rparr>)"

text \<open>
  Lines 68--121: the configuration file is used when \<^verbatim>\<open>os.Stat\<close> does not report it
  missing; the linter is created from the options and run on the resolved input; the
  diagnostics are converted.  \<open>Valid\<close> is set from the engine's list before the loop.
\<close>

definition configFilePath :: string where
  "configFilePath = ''.github/actionlint.yaml''"

definition linter_options :: "world \<Rightarrow> LinterOptions" where
  "linter_options w =
     \<lparr>Shellcheck = os_Getenv w ''SHELLCHECK_COMMAND'',
      Pyflakes = os_Getenv w ''PYFLAKES_COMMAND'',
      ConfigFile = (if os_Stat_IsNotExist w configFilePath then [] else configFilePath),
      IgnorePatterns = []\<rparr>"

definition setup_calls :: "world \<Rightarrow> call list" where
  "setup_calls w =
     [Call_Stat configFilePath, Call_Getenv ''SHELLCHECK_COMMAND'',
      Call_Getenv ''PYFLAKES_COMMAND'', Call_NewLinter (linter_options w)]"

definition lint_result ::
  "world \<Rightarrow> string \<Rightarrow> string \<Rightarrow> (error + LintResult) \<times> call list" where
  "lint_result w filePath bytes =
     (case actionlint_NewLinter w (linter_options w) of
        Inl err \<Rightarrow> (Inl (''failed to create linter: '' @ err), setup_calls w)
      | Inr linter \<Rightarrow>
          (case linter filePath bytes of
             Inl err \<Rightarrow>
               (Inl (''linting failed: '' @ err), setup_calls w @ [Call_Lint filePath bytes])
           | Inr errs \<Rightarrow>
               (Inr (convert_errors errs
                       \<lparr>Errors = [], Valid = (length errs = 0), FilePath = filePath\<rparr>),
                setup_calls w @ [Call_Lint filePath bytes])))"

text \<open>Lines 123--135: the result is rendered as JSON into one text block.\<close>

definition marshal_result ::
  "world \<Rightarrow> LintResult \<Rightarrow> error + CallToolResult" where
  "marshal_result w result =
     (case json_MarshalIndent_LintResult w result of
        Inl err \<Rightarrow> Inl (''failed to marshal result: '' @ err)
      | Inr resultJSON \<Rightarrow> Inr \<lparr>Content = [TextContent resultJSON]\<rparr>)"

text \<open>
  Lines 50--121, the handler up to the \<^verbatim>\<open>LintResult\<close> it is about to render: the
  input is resolved and linted, the first failure returned.
\<close>

definition LintWorkflow_result ::
  "world \<Rightarrow> LintWorkflowParams \<Rightarrow> (error + LintResult) \<times> call list" where
  "LintWorkflow_result w params =
     (case resolve_input w params of
        (Inl err, cs) \<Rightarrow> (Inl err, cs)
      | (Inr (filePath, bytes), cs) \<Rightarrow>
          (case lint_result w filePath bytes of (r, cs') \<Rightarrow> (r, cs @ cs')))"

text \<open>The handler, lines 49--136.\<close>

definition LintWorkflow ::
  "world \<Rightarrow> LintWorkflowParams \<Rightarrow> (error + CallToolResult) \<times> call list" where
  "LintWorkflow w params =
     (case LintWorkflow_result w params of
        (Inl err, cs) \<Rightarrow> (Inl err, cs)
      | (Inr result, cs) \<Rightarrow> (marshal_result w result, cs))"

subsection \<open>CheckAllWorkflows\<close>

text \<open>Lines 139--142: the directory searched, with its default.\<close>

definition effective_directory :: "CheckAllWorkflowsParams \<Rightarrow> string" where
  "effective_directory params =
     (if directory params \<noteq> [] then directory params else ''.github/workflows'')"

text \<open>
  Lines 144--151: the two globs.  The error of each is dropped (\<^verbatim>\<open>files1, _ :=\<close>) and
  the matches are concatenated.
\<close>

definition discover :: "world \<Rightarrow> string \<Rightarrow> string list \<times> call list" where
  "discover w dir =
     (let pattern1 = filepath_Join w dir ''*.yml'';
          files1 = fst (filepath_Glob w pattern1);
          pattern2 = filepath_Join w dir ''*.yaml'';
          files2 = fst (filepath_Glob w pattern2)
      in (files1 @ files2, [Call_Glob pattern1, Call_Glob pattern2]))"

text \<open>Lines 176--183: the result recorded for a file whose linting failed.\<close>

definition failed_result :: "string \<Rightarrow> error \<Rightarrow> LintResult" where
  "failed_result file err =
     \<lparr>Errors = [\<lparr>Message = ''Failed to lint: '' @ err, Line = 0, Column = 0, Kind = [],
                 Severity = ''error''\<rparr>],
      Valid = False, FilePath = file\<rparr>"

text \<open>
  Lines 167--195, one iteration of the loop over \<^verbatim>\<open>files\<close>: the file is linted through
  \<^verbatim>\<open>LintWorkflow\<close>; a failure is stored as \<open>failed_result\<close>; a success is parsed back
  from the first content block and stored only when that block is text and parses.
\<close>

definition lint_file ::
  "world \<Rightarrow> string \<Rightarrow> (string \<times> LintResult) list \<Rightarrow> (string \<times> LintResult) list \<times> call list"
  where
  "lint_file w file allResults =
     (case LintWorkflow w \<lparr>file_path = file, content = []\<rparr> of
        (Inl err, cs) \<Rightarrow> (AList.update file (failed_result file err) allResults, cs)
      | (Inr result, cs) \<Rightarrow>
          (case Content result of
             TextContent text # _ \<Rightarrow>
               (case json_Unmarshal_LintResult w text of
                  Inr lintResult \<Rightarrow> (AList.update file lintResult allResults, cs)
                | Inl _ \<Rightarrow> (allResults, cs))
           | _ \<Rightarrow> (allResults, cs)))"

text \<open>Lines 166--196: the loop.\<close>

fun lint_files ::
  "world \<Rightarrow> string list \<Rightarrow> (string \<times> LintResult) list \<Rightarrow> (string \<times> LintResult) list \<times> call list"
  where
  "lint_files w [] allResults = (allResults, [])"
| "lint_files w (file # files) allResults =
     (case lint_file w file allResults of
        (allResults', cs) \<Rightarrow>
          (case lint_files w files allResults' of
             (allResults'', cs') \<Rightarrow> (allResults'', cs @ cs')))"

text \<open>
  Lines 206--211: the loop over \<^verbatim>\<open>allResults\<close> that fills the two counters.  Both are
  stepped only for an entry that is not valid.  A Go \<^verbatim>\<open>int\<close> has 64 bits; the counters
  are bounded by the number of files and of diagnostics held in memory, so they do not wrap.
\<close>

fun count_errors :: "(string \<times> LintResult) list \<Rightarrow> Summary \<Rightarrow> Summary" where
  "count_errors [] summary = summary"
| "count_errors ((file, result) # rest) summary =
     count_errors rest
       (if \<not> Valid result then
          summary\<lparr>files_with_errors := files_with_errors summary + 1,
                  total_errors := total_errors summary + int (length (Errors result))\<rparr>
        else summary)"

text \<open>Lines 163--211: all files are linted, then the summary is built and counted.\<close>

definition build_summary :: "world \<Rightarrow> string list \<Rightarrow> Summary \<times> call list" where
  "build_summary w files =
     (case lint_files w files [] of
        (allResults, cs) \<Rightarrow>
          (count_errors allResults
             \<lparr>total_files = int (length files), files_with_errors = 0, total_errors = 0,
              results = allResults\<rparr>,
           cs))"

text \<open>The handler, lines 138--225.\<close>

definition CheckAllWorkflows ::
  "world \<Rightarrow> CheckAllWorkflowsParams \<Rightarrow> (error + CallToolResult) \<times> call list" where
  "CheckAllWorkflows w params =
     (case discover w (effective_directory params) of
        (files, cs) \<Rightarrow>
          if length files = 0 then
            (Inr \<lparr>Content =
                    [TextContent (''No workflow files found in '' @ effective_directory params)]\<rparr>,
             cs)
          else
            (case build_summary w files of
               (summary, cs') \<Rightarrow>
                 (case json_MarshalIndent_Summary w summary of
                    Inl err \<Rightarrow> (Inl (''failed to marshal result: '' @ err), cs @ cs')
                  | Inr resultJSON \<Rightarrow> (Inr \<lparr>Content = [TextContent resultJSON]\<rparr>, cs @ cs'))))"

subsection \<open>An example world\<close>

text \<open>
  A small world on which the theorems below are run.  Its directory \<^verbatim>\<open>wf\<close> holds a clean
  workflow \<^verbatim>\<open>a.yml\<close>, a workflow \<^verbatim>\<open>b.yaml\<close> with three findings and a file
  \<^verbatim>\<open>c.yml\<close> that cannot be read; the directory name \<^verbatim>\<open>[\<close> is a malformed glob
  pattern.  Its engine reports one syntax error for a document of blanks or of no bytes.  Its
  JSON stand-in keeps of a result the validity flag and one character per diagnostic, and
  parses that back.
\<close>

definition example_linter :: linter where
  "example_linter filePath bytes =
     (if bytes = ''name: ok'' then Inr []
      else if bytes = ''jobs: 1'' then
        Inr [\<lparr>eMessage = ''jobs must be a mapping'', eLine = 1, eColumn = 7,
               eKind = ''syntax-check''\<rparr>,
             \<lparr>eMessage = ''SC2086: double quote'', eLine = 4, eColumn = 9,
               eKind = ''shellcheck''\<rparr>,
             \<lparr>eMessage = ''undefined variable'', eLine = 5, eColumn = 2,
               eKind = ''expression''\<rparr>]
      else if bytes = ''%'' then Inl ''yaml: could not find expected directive name''
      else
        Inr [\<lparr>eMessage = ''workflow is empty'', eLine = 1, eColumn = 1,
               eKind = ''syntax-check''\<rparr>])"

definition example_marshal :: "LintResult \<Rightarrow> error + string" where
  "example_marshal r =
     Inr ((if Valid r then CHR ''T'' else CHR ''F'') # replicate (length (Errors r)) CHR ''e'')"

fun example_unmarshal :: "string \<Rightarrow> error + LintResult" where
  "example_unmarshal [] = Inl ''unexpected end of JSON input''"
| "example_unmarshal (c # cs) =
     Inr \<lparr>Errors = map (\<lambda>_. \<lparr>Message = [], Line = 0, Column = 0, Kind = [], Severity = []\<rparr>) cs,
          Valid = (c = CHR ''T''), FilePath = []\<rparr>"

definition example_world :: world where
  "example_world =
     \<lparr>os_ReadFile = (\<lambda>p.
          if p = ''wf/a.yml'' then Inr ''name: ok''
          else if p = ''wf/b.yaml'' then Inr ''jobs: 1''
          else if p = ''wf/c.yml'' then Inl ''open wf/c.yml: permission denied''
          else Inl (''open '' @ p @ '': no such file or directory'')),
      os_Stat_IsNotExist = (\<lambda>p. True),
      os_Getenv = (\<lambda>name. []),
      actionlint_NewLinter = (\<lambda>opts.
          if ConfigFile opts = [] then Inr example_linter
          else Inl ''could not parse config file''),
      json_MarshalIndent_LintResult = example_marshal,
      json_MarshalIndent_Summary = (\<lambda>s. Inr ''{}''),
      json_Unmarshal_LintResult = example_unmarshal,
      filepath_Join = (\<lambda>dir name. dir @ ''/'' @ name),
      filepath_Glob = (\<lambda>pattern.
          if pattern = ''wf/*.yml'' then ([''wf/a.yml'', ''wf/c.yml''], None)
          else if pattern = ''wf/*.yaml'' then ([''wf/b.yaml''], None)
          else if pattern = ''[/*.yml'' \<or> pattern = ''[/*.yaml'' then
            ([], Some ''syntax error in pattern'')
          else ([], None))\<rparr>"

text \<open>The same world with a configuration file present that the engine cannot parse.\<close>

definition broken_config_world :: world where
  "broken_config_world = example_world\<lparr>os_Stat_IsNotExist := (\<lambda>p. False)\<rparr>"

text \<open>
  The files found in \<^verbatim>\<open>wf\<close> and the summary \<^verbatim>\<open>CheckAllWorkflows\<close> builds for them
  in the example world.
\<close>

definition example_files :: "string list" where
  "example_files = [''wf/a.yml'', ''wf/c.yml'', ''wf/b.yaml'']"

definition example_summary :: Summary where
  "example_summary =
     \<lparr>total_files = 3, files_with_errors = 2, total_errors = 4,
      results =
        [(''wf/a.yml'', \<lparr>Errors = [], Valid = True, FilePath = []\<rparr>),
         (''wf/c.yml'',
          \<lparr>Errors =
             [\<lparr>Message = ''Failed to lint: failed to read file: open wf/c.yml: permission denied'',
               Line = 0, Column = 0, Kind = [], Severity = ''error''\<rparr>],
           Valid = False, FilePath = ''wf/c.yml''\<rparr>),
         (''wf/b.yaml'',
          \<lparr>Errors =
             replicate 3 \<lparr>Message = [], Line = 0, Column = 0, Kind = [], Severity = []\<rparr>,
           Valid = False, FilePath = []\<rparr>)]\<rparr>"

section \<open>Properties of LintWorkflow\<close>

subsection \<open>What a call returns\<close>

lemma convert_errors_eq:
  "convert_errors errs r = r\<lparr>Errors := Errors r @ map convert_error errs\<rparr>"
  by (induction errs arbitrary: r) simp_all

lemma lint_result_Inr:
  assumes "lint_result w filePath bytes = (Inr r, cs)"
  shows "\<exists>linter errs. actionlint_NewLinter w (linter_options w) = Inr linter
           \<and> linter filePath bytes = Inr errs
           \<and> r = \<lparr>Errors = map convert_error errs, Valid = (errs = []), FilePath = filePath\<rparr>
           \<and> cs = setup_calls w @ [Call_Lint filePath bytes]"
  using assms
  by (auto simp: lint_result_def convert_errors_eq split: sum.splits)

lemma LintWorkflow_result_Inr:
  assumes "LintWorkflow_result w params = (Inr result, cs)"
  shows "\<exists>filePath bytes cs0 linter errs.
           resolve_input w params = (Inr (filePath, bytes), cs0)
           \<and> actionlint_NewLinter w (linter_options w) = Inr linter
           \<and> linter filePath bytes = Inr errs
           \<and> result = \<lparr>Errors = map convert_error errs, Valid = (errs = []), FilePath = filePath\<rparr>
           \<and> cs = cs0 @ setup_calls w @ [Call_Lint filePath bytes]"
proof -
  from assms obtain filePath bytes cs0 cs1 where
    r: "resolve_input w params = (Inr (filePath, bytes), cs0)" and
    l: "lint_result w filePath bytes = (Inr result, cs1)" and
    c: "cs = cs0 @ cs1"
    by (auto simp: LintWorkflow_result_def split: prod.splits sum.splits)
  from lint_result_Inr [OF l] r c show ?thesis by blast
qed

lemma LintWorkflow_Inr:
  assumes "LintWorkflow w params = (Inr res, cs)"
  shows "\<exists>result rendered. LintWorkflow_result w params = (Inr result, cs)
           \<and> json_MarshalIndent_LintResult w result = Inr rendered
           \<and> res = \<lparr>Content = [TextContent rendered]\<rparr>"
  using assms
  by (auto simp: LintWorkflow_def marshal_result_def split: prod.splits sum.splits)

lemma LintWorkflow_Inl:
  assumes "LintWorkflow w params = (Inl err, cs)"
  shows "LintWorkflow_result w params = (Inl err, cs)
         \<or> (\<exists>result e. LintWorkflow_result w params = (Inr result, cs)
               \<and> json_MarshalIndent_LintResult w result = Inl e
               \<and> err = ''failed to marshal result: '' @ e)"
  using assms
  by (auto simp: LintWorkflow_def marshal_result_def split: prod.splits sum.splits)

text \<open>The definitions that running the example world unfolds.\<close>

lemmas example_defs =
  example_world_def example_linter_def example_marshal_def
  LintWorkflow_def LintWorkflow_result_def resolve_input_def lint_result_def
  marshal_result_def linter_options_def setup_calls_def configFilePath_def
  convert_error_def severity_of_def

subsection \<open>Validity is computed from the diagnostics\<close>

text \<open>
  Claim C1.  Whenever \<^verbatim>\<open>LintWorkflow\<close> succeeds, the text it returns is the rendering of a
  \<open>LintResult\<close> whose \<open>Valid\<close> field is true exactly when its \<open>Errors\<close> list is empty.
  The flag is computed by the handler: the engine's interface returns a list of diagnostics
  and no flag.
\<close>

theorem LintWorkflow_valid_iff_no_errors:
  assumes "LintWorkflow w params = (Inr res, cs)"
  shows "\<exists>result rendered.
           LintWorkflow_result w params = (Inr result, cs)
           \<and> json_MarshalIndent_LintResult w result = Inr rendered
           \<and> res = \<lparr>Content = [TextContent rendered]\<rparr>
           \<and> (Valid result \<longleftrightarrow> Errors result = [])"
proof -
  from LintWorkflow_Inr [OF assms] obtain result rendered where
    r: "LintWorkflow_result w params = (Inr result, cs)" and
    m: "json_MarshalIndent_LintResult w result = Inr rendered" and
    c: "res = \<lparr>Content = [TextContent rendered]\<rparr>"
    by blast
  from LintWorkflow_result_Inr [OF r] have "Valid result \<longleftrightarrow> Errors result = []"
    by auto
  with r m c show ?thesis by blast
qed

theorem LintWorkflow_valid_iff_no_errors_witness:
  "LintWorkflow example_world \<lparr>file_path = ''wf/b.yaml'', content = []\<rparr> =
     (Inr \<lparr>Content = [TextContent ''Feee'']\<rparr>,
      [Call_ReadFile ''wf/b.yaml''] @ setup_calls example_world
        @ [Call_Lint ''wf/b.yaml'' ''jobs: 1''])
   \<and> (\<exists>result rendered.
         LintWorkflow_result example_world \<lparr>file_path = ''wf/b.yaml'', content = []\<rparr> =
           (Inr result,
            [Call_ReadFile ''wf/b.yaml''] @ setup_calls example_world
              @ [Call_Lint ''wf/b.yaml'' ''jobs: 1''])
         \<and> json_MarshalIndent_LintResult example_world result = Inr rendered
         \<and> \<lparr>Content = [TextContent ''Feee'']\<rparr> = \<lparr>Content = [TextContent rendered]\<rparr>
         \<and> (Valid result \<longleftrightarrow> Errors result = []))"
proof -
  have h: "LintWorkflow example_world \<lparr>file_path = ''wf/b.yaml'', content = []\<rparr> =
     (Inr \<lparr>Content = [TextContent ''Feee'']\<rparr>,
      [Call_ReadFile ''wf/b.yaml''] @ setup_calls example_world
        @ [Call_Lint ''wf/b.yaml'' ''jobs: 1''])"
    by (simp add: example_defs)
  from LintWorkflow_valid_iff_no_errors [OF h] h show ?thesis by blast
qed

subsection \<open>Missing input\<close>

text \<open>
  Claim C4.  When neither \<^verbatim>\<open>file_path\<close> nor \<^verbatim>\<open>content\<close> is populated,
  \<^verbatim>\<open>LintWorkflow\<close> fails with the message "either file\_path or content must be provided",
  and it has made no external call: no file is read and the engine is neither created nor
  run.
\<close>

theorem LintWorkflow_missing_input:
  assumes "file_path params = []" and "content params = []"
  shows "LintWorkflow w params = (Inl ''either file_path or content must be provided'', [])"
  using assms by (simp add: LintWorkflow_def LintWorkflow_result_def resolve_input_def)

theorem LintWorkflow_missing_input_witness:
  "file_path \<lparr>file_path = [], content = []\<rparr> = []
   \<and> content \<lparr>file_path = [], content = []\<rparr> = []
   \<and> LintWorkflow example_world \<lparr>file_path = [], content = []\<rparr> =
       (Inl ''either file_path or content must be provided'', [])"
  using LintWorkflow_missing_input [of "\<lparr>file_path = [], content = []\<rparr>" example_world]
  by simp

subsection \<open>Normalization of the diagnostics\<close>

text \<open>
  Claim C5.  Whenever \<^verbatim>\<open>LintWorkflow\<close> succeeds, the result it renders has one entry
  per diagnostic of the engine, in the engine's order; entry \<open>i\<close> carries the message,
  position and kind of diagnostic \<open>i\<close>, and its severity is "error" for the kinds
  "syntax-check" and "type-check", "warning" for "shellcheck" and "pyflakes", and "info" for
  every other kind.
\<close>

theorem LintWorkflow_normalizes_every_diagnostic:
  assumes "LintWorkflow w params = (Inr res, cs)"
  shows "\<exists>filePath bytes cs0 linter errs result.
           resolve_input w params = (Inr (filePath, bytes), cs0)
           \<and> actionlint_NewLinter w (linter_options w) = Inr linter
           \<and> linter filePath bytes = Inr errs
           \<and> LintWorkflow_result w params = (Inr result, cs)
           \<and> marshal_result w result = Inr res
           \<and> length (Errors result) = length errs
           \<and> (\<forall>i < length errs.
                 Message (Errors result ! i) = eMessage (errs ! i)
                 \<and> Line (Errors result ! i) = eLine (errs ! i)
                 \<and> Column (Errors result ! i) = eColumn (errs ! i)
                 \<and> Kind (Errors result ! i) = eKind (errs ! i)
                 \<and> Severity (Errors result ! i) =
                     (if eKind (errs ! i) \<in> {''syntax-check'', ''type-check''} then ''error''
                      else if eKind (errs ! i) \<in> {''shellcheck'', ''pyflakes''} then ''warning''
                      else ''info''))"
proof -
  from LintWorkflow_Inr [OF assms] obtain result rendered where
    r: "LintWorkflow_result w params = (Inr result, cs)" and
    m: "json_MarshalIndent_LintResult w result = Inr rendered" and
    c: "res = \<lparr>Content = [TextContent rendered]\<rparr>"
    by blast
  from LintWorkflow_result_Inr [OF r] obtain filePath bytes cs0 linter errs where
    i: "resolve_input w params = (Inr (filePath, bytes), cs0)" and
    n: "actionlint_NewLinter w (linter_options w) = Inr linter" and
    l: "linter filePath bytes = Inr errs" and
    e: "result = \<lparr>Errors = map convert_error errs, Valid = (errs = []), FilePath = filePath\<rparr>"
    by blast
  from m c have mr: "marshal_result w result = Inr res"
    by (simp add: marshal_result_def)
  from e have len: "length (Errors result) = length errs" by simp
  from e have each: "\<forall>i < length errs.
      Message (Errors result ! i) = eMessage (errs ! i)
      \<and> Line (Errors result ! i) = eLine (errs ! i)
      \<and> Column (Errors result ! i) = eColumn (errs ! i)
      \<and> Kind (Errors result ! i) = eKind (errs ! i)
      \<and> Severity (Errors result ! i) =
          (if eKind (errs ! i) \<in> {''syntax-check'', ''type-check''} then ''error''
           else if eKind (errs ! i) \<in> {''shellcheck'', ''pyflakes''} then ''warning''
           else ''info'')"
    by (simp add: convert_error_def severity_of_def)
  from i n l r mr len each show ?thesis by blast
qed

theorem LintWorkflow_normalizes_every_diagnostic_witness:
  "LintWorkflow example_world \<lparr>file_path = [], content = ''jobs: 1''\<rparr> =
     (Inr \<lparr>Content = [TextContent ''Feee'']\<rparr>,
      setup_calls example_world @ [Call_Lint ''inline.yml'' ''jobs: 1''])
   \<and> LintWorkflow_result example_world \<lparr>file_path = [], content = ''jobs: 1''\<rparr> =
     (Inr \<lparr>Errors =
             [\<lparr>Message = ''jobs must be a mapping'', Line = 1, Column = 7,
               Kind = ''syntax-check'', Severity = ''error''\<rparr>,
              \<lparr>Message = ''SC2086: double quote'', Line = 4, Column = 9,
               Kind = ''shellcheck'', Severity = ''warning''\<rparr>,
              \<lparr>Message = ''undefined variable'', Line = 5, Column = 2,
               Kind = ''expression'', Severity = ''info''\<rparr>],
           Valid = False, FilePath = ''inline.yml''\<rparr>,
      setup_calls example_world @ [Call_Lint ''inline.yml'' ''jobs: 1''])
   \<and> (\<exists>filePath bytes cs0 linter errs result.
         resolve_input example_world \<lparr>file_path = [], content = ''jobs: 1''\<rparr> =
           (Inr (filePath, bytes), cs0)
         \<and> actionlint_NewLinter example_world (linter_options example_world) = Inr linter
         \<and> linter filePath bytes = Inr errs
         \<and> length (Errors result) = length errs
         \<and> marshal_result example_world result = Inr \<lparr>Content = [TextContent ''Feee'']\<rparr>)"
proof -
  have h: "LintWorkflow example_world \<lparr>file_path = [], content = ''jobs: 1''\<rparr> =
     (Inr \<lparr>Content = [TextContent ''Feee'']\<rparr>,
      setup_calls example_world @ [Call_Lint ''inline.yml'' ''jobs: 1''])"
    by (simp add: example_defs)
  have r: "LintWorkflow_result example_world \<lparr>file_path = [], content = ''jobs: 1''\<rparr> =
     (Inr \<lparr>Errors =
             [\<lparr>Message = ''jobs must be a mapping'', Line = 1, Column = 7,
               Kind = ''syntax-check'', Severity = ''error''\<rparr>,
              \<lparr>Message = ''SC2086: double quote'', Line = 4, Column = 9,
               Kind = ''shellcheck'', Severity = ''warning''\<rparr>,
              \<lparr>Message = ''undefined variable'', Line = 5, Column = 2,
               Kind = ''expression'', Severity = ''info''\<rparr>],
           Valid = False, FilePath = ''inline.yml''\<rparr>,
      setup_calls example_world @ [Call_Lint ''inline.yml'' ''jobs: 1''])"
    by (simp add: example_defs)
  from LintWorkflow_normalizes_every_diagnostic [OF h]
  obtain filePath bytes cs0 linter errs result where
    "resolve_input example_world \<lparr>file_path = [], content = ''jobs: 1''\<rparr> =
       (Inr (filePath, bytes), cs0)"
    "actionlint_NewLinter example_world (linter_options example_world) = Inr linter"
    "linter filePath bytes = Inr errs"
    "length (Errors result) = length errs"
    "marshal_result example_world result = Inr \<lparr>Content = [TextContent ''Feee'']\<rparr>"
    by blast
  then have "\<exists>filePath bytes cs0 linter errs result.
         resolve_input example_world \<lparr>file_path = [], content = ''jobs: 1''\<rparr> =
           (Inr (filePath, bytes), cs0)
         \<and> actionlint_NewLinter example_world (linter_options example_world) = Inr linter
         \<and> linter filePath bytes = Inr errs
         \<and> length (Errors result) = length errs
         \<and> marshal_result example_world result = Inr \<lparr>Content = [TextContent ''Feee'']\<rparr>"
    by blast
  with h r show ?thesis by (intro conjI)
qed

subsection \<open>The failure messages\<close>

lemma resolve_input_Inl:
  assumes "resolve_input w params = (Inl err, cs)"
  shows "(\<exists>e. err = ''failed to read file: '' @ e)
         \<or> err = ''either file_path or content must be provided''"
  using assms by (auto simp: resolve_input_def split: if_splits sum.splits)

lemma lint_result_Inl:
  assumes "lint_result w filePath bytes = (Inl err, cs)"
  shows "(\<exists>e. err = ''failed to create linter: '' @ e) \<or> (\<exists>e. err = ''linting failed: '' @ e)"
  using assms by (auto simp: lint_result_def split: sum.splits)

lemma LintWorkflow_result_Inl:
  assumes "LintWorkflow_result w params = (Inl err, cs)"
  shows "(\<exists>e. err = ''failed to read file: '' @ e)
         \<or> (\<exists>e. err = ''failed to create linter: '' @ e)
         \<or> (\<exists>e. err = ''linting failed: '' @ e)
         \<or> err = ''either file_path or content must be provided''"
proof (cases "resolve_input w params")
  case (Pair r cs0)
  show ?thesis
  proof (cases r)
    case (Inl e)
    with Pair assms have "resolve_input w params = (Inl err, cs)"
      by (simp add: LintWorkflow_result_def)
    from resolve_input_Inl [OF this] show ?thesis by blast
  next
    case (Inr fb)
    obtain filePath bytes where fb: "fb = (filePath, bytes)" by (cases fb)
    obtain r1 cs1 where l: "lint_result w filePath bytes = (r1, cs1)"
      by (cases "lint_result w filePath bytes")
    with Pair Inr fb assms have "r1 = Inl err"
      by (simp add: LintWorkflow_result_def)
    with l have "lint_result w filePath bytes = (Inl err, cs1)" by simp
    from lint_result_Inl [OF this] show ?thesis by blast
  qed
qed

text \<open>
  Claim C8, as stated: every failure message of \<^verbatim>\<open>LintWorkflow\<close> starts with
  "failed to read file: " or with "linting failed: ", or is "either file\_path or content
  must be provided".  It fails where the configuration file exists and the engine cannot be
  created from it: line 84 returns a message that starts with "failed to create linter: ".
\<close>

theorem LintWorkflow_error_messages_counterexample:
  "fst (LintWorkflow broken_config_world \<lparr>file_path = [], content = ''name: ok''\<rparr>) =
     Inl ''failed to create linter: could not parse config file''
   \<and> \<not> prefix ''failed to read file: '' ''failed to create linter: could not parse config file''
   \<and> \<not> prefix ''linting failed: '' ''failed to create linter: could not parse config file''
   \<and> ''failed to create linter: could not parse config file'' \<noteq>
       ''either file_path or content must be provided''"
  by (simp add: broken_config_world_def example_defs)

text \<open>
  Claim C8, amended.  Every failure message of \<^verbatim>\<open>LintWorkflow\<close> starts with one of
  "failed to read file: ", "failed to create linter: ", "linting failed: " and "failed to
  marshal result: ", or is "either file\_path or content must be provided".
\<close>

theorem LintWorkflow_error_messages:
  assumes "LintWorkflow w params = (Inl err, cs)"
  shows "prefix ''failed to read file: '' err
         \<or> prefix ''failed to create linter: '' err
         \<or> prefix ''linting failed: '' err
         \<or> prefix ''failed to marshal result: '' err
         \<or> err = ''either file_path or content must be provided''"
proof -
  from LintWorkflow_Inl [OF assms] LintWorkflow_result_Inl [of w params err cs]
  have "(\<exists>e. err = ''failed to read file: '' @ e)
         \<or> (\<exists>e. err = ''failed to create linter: '' @ e)
         \<or> (\<exists>e. err = ''linting failed: '' @ e)
         \<or> (\<exists>e. err = ''failed to marshal result: '' @ e)
         \<or> err = ''either file_path or content must be provided''"
    by blast
  then show ?thesis
    by (elim disjE exE) (simp_all only: prefixI simp_thms)
qed

theorem LintWorkflow_error_messages_witness:
  "LintWorkflow example_world \<lparr>file_path = ''wf/c.yml'', content = []\<rparr> =
     (Inl ''failed to read file: open wf/c.yml: permission denied'', [Call_ReadFile ''wf/c.yml''])
   \<and> prefix ''failed to read file: '' ''failed to read file: open wf/c.yml: permission denied''"
proof -
  have h: "LintWorkflow example_world \<lparr>file_path = ''wf/c.yml'', content = []\<rparr> =
     (Inl ''failed to read file: open wf/c.yml: permission denied'', [Call_ReadFile ''wf/c.yml''])"
    by (simp add: example_defs)
  from LintWorkflow_error_messages [OF h] h show ?thesis by simp
qed

subsection \<open>The external calls of a run\<close>

lemma LintWorkflow_calls:
  "snd (LintWorkflow w params) = snd (LintWorkflow_result w params)"
  by (simp add: LintWorkflow_def split: prod.splits sum.splits)

lemma Call_Lint_notin_setup_calls: "Call_Lint filePath bytes \<notin> set (setup_calls w)"
  by (simp add: setup_calls_def)

lemma lint_result_calls:
  "snd (lint_result w filePath bytes) =
     (case actionlint_NewLinter w (linter_options w) of
        Inl err \<Rightarrow> setup_calls w
      | Inr linter \<Rightarrow> setup_calls w @ [Call_Lint filePath bytes])"
  by (simp add: lint_result_def split: sum.splits)

lemma LintWorkflow_result_by_path:
  assumes "file_path params \<noteq> []"
  shows "LintWorkflow_result w params =
           (case os_ReadFile w (file_path params) of
              Inl err \<Rightarrow> (Inl (''failed to read file: '' @ err), [Call_ReadFile (file_path params)])
            | Inr bytes \<Rightarrow>
                (fst (lint_result w (file_path params) bytes),
                 Call_ReadFile (file_path params) # snd (lint_result w (file_path params) bytes)))"
  using assms
  by (simp add: LintWorkflow_result_def resolve_input_def split: sum.splits prod.splits)

lemma LintWorkflow_result_inline:
  assumes "file_path params = []" and "content params \<noteq> []"
  shows "LintWorkflow_result w params = lint_result w ''inline.yml'' (content params)"
  using assms
  by (simp add: LintWorkflow_result_def resolve_input_def split: prod.splits)

subsection \<open>A request with both a path and inline content\<close>

text \<open>
  Claim C9.  When both \<^verbatim>\<open>file_path\<close> and \<^verbatim>\<open>content\<close> are non-empty, the path wins:
  the call behaves as the same request without inline content, its first external call
  reads the file at \<^verbatim>\<open>file_path\<close>, the engine is only ever run on that path with the
  bytes read from it, and a result carries that path in \<open>FilePath\<close>.
\<close>

theorem LintWorkflow_prefers_file_path:
  assumes "file_path params \<noteq> []" and "content params \<noteq> []"
  shows "LintWorkflow w params = LintWorkflow w \<lparr>file_path = file_path params, content = []\<rparr>
         \<and> (\<exists>cs. snd (LintWorkflow w params) = Call_ReadFile (file_path params) # cs)
         \<and> (\<forall>filePath bytes.
               Call_Lint filePath bytes \<in> set (snd (LintWorkflow w params)) \<longrightarrow>
               filePath = file_path params \<and> os_ReadFile w (file_path params) = Inr bytes)
         \<and> (\<forall>result cs.
               LintWorkflow_result w params = (Inr result, cs) \<longrightarrow>
               FilePath result = file_path params)"
proof -
  have "LintWorkflow_result w params =
          LintWorkflow_result w \<lparr>file_path = file_path params, content = []\<rparr>"
    using assms(1) by (simp add: LintWorkflow_result_by_path split: sum.splits)
  then have same: "LintWorkflow w params =
               LintWorkflow w \<lparr>file_path = file_path params, content = []\<rparr>"
    by (simp add: LintWorkflow_def)
  have first: "\<exists>cs. snd (LintWorkflow w params) = Call_ReadFile (file_path params) # cs"
    using assms(1)
    by (simp add: LintWorkflow_calls LintWorkflow_result_by_path split: sum.splits)
  have lint: "\<forall>filePath bytes.
               Call_Lint filePath bytes \<in> set (snd (LintWorkflow w params)) \<longrightarrow>
               filePath = file_path params \<and> os_ReadFile w (file_path params) = Inr bytes"
    using assms(1)
    by (auto simp: LintWorkflow_calls LintWorkflow_result_by_path lint_result_calls
                   Call_Lint_notin_setup_calls
             split: sum.splits)
  have path: "\<forall>result cs.
               LintWorkflow_result w params = (Inr result, cs) \<longrightarrow>
               FilePath result = file_path params"
  proof (intro allI impI)
    fix result cs
    assume r: "LintWorkflow_result w params = (Inr result, cs)"
    from LintWorkflow_result_Inr [OF r] assms(1) show "FilePath result = file_path params"
      by (auto simp: resolve_input_def split: sum.splits)
  qed
  from same first lint path show ?thesis by (intro conjI)
qed

theorem LintWorkflow_prefers_file_path_witness:
  "file_path \<lparr>file_path = ''wf/a.yml'', content = ''jobs: 1''\<rparr> \<noteq> []
   \<and> content \<lparr>file_path = ''wf/a.yml'', content = ''jobs: 1''\<rparr> \<noteq> []
   \<and> LintWorkflow example_world \<lparr>file_path = ''wf/a.yml'', content = ''jobs: 1''\<rparr> =
       LintWorkflow example_world \<lparr>file_path = ''wf/a.yml'', content = []\<rparr>
   \<and> LintWorkflow_result example_world \<lparr>file_path = ''wf/a.yml'', content = ''jobs: 1''\<rparr> =
       (Inr \<lparr>Errors = [], Valid = True, FilePath = ''wf/a.yml''\<rparr>,
        [Call_ReadFile ''wf/a.yml''] @ setup_calls example_world
          @ [Call_Lint ''wf/a.yml'' ''name: ok''])"
proof -
  have r: "LintWorkflow_result example_world \<lparr>file_path = ''wf/a.yml'', content = ''jobs: 1''\<rparr> =
       (Inr \<lparr>Errors = [], Valid = True, FilePath = ''wf/a.yml''\<rparr>,
        [Call_ReadFile ''wf/a.yml''] @ setup_calls example_world
          @ [Call_Lint ''wf/a.yml'' ''name: ok''])"
    by (simp add: example_defs)
  from LintWorkflow_prefers_file_path
         [of "\<lparr>file_path = ''wf/a.yml'', content = ''jobs: 1''\<rparr>" example_world]
  have "LintWorkflow example_world \<lparr>file_path = ''wf/a.yml'', content = ''jobs: 1''\<rparr> =
       LintWorkflow example_world \<lparr>file_path = ''wf/a.yml'', content = []\<rparr>"
    by simp
  with r show ?thesis by simp
qed

subsection \<open>A request with inline content only\<close>

text \<open>
  Claim C6, as stated: inline content, zero-byte content included, is forwarded to the
  engine, and for empty content the engine's rejection gives a successful result that is not
  valid.  It fails for zero-byte content: the second case of the \<^verbatim>\<open>switch\<close> asks for
  \<^verbatim>\<open>Content != ""\<close>, so the call ends in the default branch before any external call,
  although the engine of the example world would report a diagnostic for the empty document.
\<close>

theorem LintWorkflow_inline_content_counterexample:
  "example_linter ''inline.yml'' [] =
     Inr [\<lparr>eMessage = ''workflow is empty'', eLine = 1, eColumn = 1, eKind = ''syntax-check''\<rparr>]
   \<and> LintWorkflow example_world \<lparr>file_path = [], content = []\<rparr> =
       (Inl ''either file_path or content must be provided'', [])
   \<and> Call_Lint ''inline.yml'' [] \<notin>
       set (snd (LintWorkflow example_world \<lparr>file_path = [], content = []\<rparr>))"
  by (simp add: example_defs)

text \<open>
  Claim C6, amended.  For a request with no file path: zero-byte content is not forwarded,
  the call fails with "either file\_path or content must be provided".  For non-empty
  content, whitespace-only content included, once the linter is created it is run exactly
  once, on the name \<^verbatim>\<open>inline.yml\<close> and the content as given; and when the engine answers
  with at least one diagnostic, the call yields a result with \<open>Valid = False\<close> and as many
  entries as the engine reported, which is what \<^verbatim>\<open>LintWorkflow\<close> renders.
\<close>

theorem LintWorkflow_inline_content:
  assumes "file_path params = []"
  shows "if content params = [] then
           LintWorkflow w params = (Inl ''either file_path or content must be provided'', [])
         else
           (\<forall>linter. actionlint_NewLinter w (linter_options w) = Inr linter \<longrightarrow>
              snd (LintWorkflow w params) =
                setup_calls w @ [Call_Lint ''inline.yml'' (content params)]
              \<and> (\<forall>errs. linter ''inline.yml'' (content params) = Inr errs \<and> errs \<noteq> [] \<longrightarrow>
                    (\<exists>result.
                       fst (LintWorkflow_result w params) = Inr result
                       \<and> \<not> Valid result
                       \<and> length (Errors result) = length errs
                       \<and> 1 \<le> length (Errors result)
                       \<and> FilePath result = ''inline.yml''
                       \<and> fst (LintWorkflow w params) = marshal_result w result)))"
proof (cases "content params = []")
  case True
  with assms show ?thesis
    by (simp add: LintWorkflow_def LintWorkflow_result_def resolve_input_def)
next
  case False
  note inline = LintWorkflow_result_inline [OF assms False, of w]
  have run: "\<forall>linter. actionlint_NewLinter w (linter_options w) = Inr linter \<longrightarrow>
                 snd (LintWorkflow w params) =
                   setup_calls w @ [Call_Lint ''inline.yml'' (content params)]
                 \<and> (\<forall>errs. linter ''inline.yml'' (content params) = Inr errs \<and> errs \<noteq> [] \<longrightarrow>
                       (\<exists>result.
                          fst (LintWorkflow_result w params) = Inr result
                          \<and> \<not> Valid result
                          \<and> length (Errors result) = length errs
                          \<and> 1 \<le> length (Errors result)
                          \<and> FilePath result = ''inline.yml''
                          \<and> fst (LintWorkflow w params) = marshal_result w result))"
  proof (intro allI impI conjI)
    fix linter
    assume n: "actionlint_NewLinter w (linter_options w) = Inr linter"
    then show "snd (LintWorkflow w params) =
                 setup_calls w @ [Call_Lint ''inline.yml'' (content params)]"
      by (simp add: LintWorkflow_calls inline lint_result_calls)
    fix errs
    assume e: "linter ''inline.yml'' (content params) = Inr errs \<and> errs \<noteq> []"
    let ?r = "\<lparr>Errors = map convert_error errs, Valid = False, FilePath = ''inline.yml''\<rparr>"
    from n e have lr: "lint_result w ''inline.yml'' (content params) =
        (Inr ?r, setup_calls w @ [Call_Lint ''inline.yml'' (content params)])"
      by (simp add: lint_result_def convert_errors_eq)
    with inline have res: "fst (LintWorkflow_result w params) = Inr ?r" by simp
    from lr inline have "fst (LintWorkflow w params) = marshal_result w ?r"
      by (simp add: LintWorkflow_def)
    moreover from e have "1 \<le> length (Errors ?r)"
      by (cases errs) simp_all
    ultimately show "\<exists>result.
        fst (LintWorkflow_result w params) = Inr result
        \<and> \<not> Valid result
        \<and> length (Errors result) = length errs
        \<and> 1 \<le> length (Errors result)
        \<and> FilePath result = ''inline.yml''
        \<and> fst (LintWorkflow w params) = marshal_result w result"
      using res by (intro exI [of _ ?r]) simp
  qed
  from False run show ?thesis by simp
qed

theorem LintWorkflow_inline_content_witness:
  "file_path \<lparr>file_path = [], content = ''  ''\<rparr> = []
   \<and> content \<lparr>file_path = [], content = ''  ''\<rparr> \<noteq> []
   \<and> actionlint_NewLinter example_world (linter_options example_world) = Inr example_linter
   \<and> example_linter ''inline.yml'' ''  '' =
       Inr [\<lparr>eMessage = ''workflow is empty'', eLine = 1, eColumn = 1, eKind = ''syntax-check''\<rparr>]
   \<and> snd (LintWorkflow example_world \<lparr>file_path = [], content = ''  ''\<rparr>) =
       setup_calls example_world @ [Call_Lint ''inline.yml'' ''  '']
   \<and> fst (LintWorkflow example_world \<lparr>file_path = [], content = ''  ''\<rparr>) =
       Inr \<lparr>Content = [TextContent ''Fe'']\<rparr>"
proof -
  have n: "actionlint_NewLinter example_world (linter_options example_world) = Inr example_linter"
    by (simp add: example_defs)
  have e: "example_linter ''inline.yml'' ''  '' =
       Inr [\<lparr>eMessage = ''workflow is empty'', eLine = 1, eColumn = 1, eKind = ''syntax-check''\<rparr>]"
    by (simp add: example_defs)
  have f: "fst (LintWorkflow example_world \<lparr>file_path = [], content = ''  ''\<rparr>) =
       Inr \<lparr>Content = [TextContent ''Fe'']\<rparr>"
    by (simp add: example_defs)
  from LintWorkflow_inline_content [of "\<lparr>file_path = [], content = ''  ''\<rparr>" example_world] n
  have "snd (LintWorkflow example_world \<lparr>file_path = [], content = ''  ''\<rparr>) =
       setup_calls example_world @ [Call_Lint ''inline.yml'' ''  '']"
    by simp
  with n e f show ?thesis by simp
qed

section \<open>Properties of CheckAllWorkflows\<close>

subsection \<open>What a call returns\<close>

lemma CheckAllWorkflows_no_files:
  assumes "fst (discover w (effective_directory params)) = []"
  shows "CheckAllWorkflows w params =
           (Inr \<lparr>Content =
                   [TextContent (''No workflow files found in '' @ effective_directory params)]\<rparr>,
            snd (discover w (effective_directory params)))"
  using assms by (cases "discover w (effective_directory params)") (simp add: CheckAllWorkflows_def)

lemma CheckAllWorkflows_files:
  assumes "discover w (effective_directory params) = (files, cs0)"
      and "files \<noteq> []"
      and "build_summary w files = (summary, cs1)"
  shows "CheckAllWorkflows w params =
           (case json_MarshalIndent_Summary w summary of
              Inl err \<Rightarrow> Inl (''failed to marshal result: '' @ err)
            | Inr rendered \<Rightarrow> Inr \<lparr>Content = [TextContent rendered]\<rparr>,
            cs0 @ cs1)"
  using assms by (simp add: CheckAllWorkflows_def split: sum.splits)

lemma CheckAllWorkflows_Inl:
  assumes "fst (CheckAllWorkflows w params) = Inl err"
  shows "\<exists>e. err = ''failed to marshal result: '' @ e"
  using assms
  by (auto simp: CheckAllWorkflows_def split: prod.splits if_splits sum.splits)

subsection \<open>A directory without workflow files\<close>

text \<open>
  Claim C7.  When neither glob yields a file, a directory that does not exist included,
  \<^verbatim>\<open>CheckAllWorkflows\<close> returns no error and the single text "No workflow files found in "
  followed by the directory searched: the argument, or \<^verbatim>\<open>.github/workflows\<close> when the
  argument is empty.  Its only external calls are the two globs.
\<close>

theorem CheckAllWorkflows_nothing_found:
  assumes "dir = (if directory params \<noteq> [] then directory params else ''.github/workflows'')"
      and "fst (filepath_Glob w (filepath_Join w dir ''*.yml'')) = []"
      and "fst (filepath_Glob w (filepath_Join w dir ''*.yaml'')) = []"
  shows "CheckAllWorkflows w params =
           (Inr \<lparr>Content = [TextContent (''No workflow files found in '' @ dir)]\<rparr>,
            [Call_Glob (filepath_Join w dir ''*.yml''),
             Call_Glob (filepath_Join w dir ''*.yaml'')])"
proof -
  from assms have d: "dir = effective_directory params"
    by (simp add: effective_directory_def)
  with assms(2,3) have "fst (discover w (effective_directory params)) = []"
    by (simp add: discover_def Let_def)
  from CheckAllWorkflows_no_files [OF this] d show ?thesis
    by (simp add: discover_def Let_def)
qed

theorem CheckAllWorkflows_nothing_found_witness:
  "''missing'' = (if directory \<lparr>directory = ''missing''\<rparr> \<noteq> []
                  then directory \<lparr>directory = ''missing''\<rparr> else ''.github/workflows'')
   \<and> fst (filepath_Glob example_world (filepath_Join example_world ''missing'' ''*.yml'')) = []
   \<and> fst (filepath_Glob example_world (filepath_Join example_world ''missing'' ''*.yaml'')) = []
   \<and> CheckAllWorkflows example_world \<lparr>directory = ''missing''\<rparr> =
       (Inr \<lparr>Content = [TextContent ''No workflow files found in missing'']\<rparr>,
        [Call_Glob ''missing/*.yml'', Call_Glob ''missing/*.yaml''])"
proof -
  have d: "''missing'' = (if directory \<lparr>directory = ''missing''\<rparr> \<noteq> []
                  then directory \<lparr>directory = ''missing''\<rparr> else ''.github/workflows'')"
    by simp
  have g1: "fst (filepath_Glob example_world (filepath_Join example_world ''missing'' ''*.yml'')) = []"
    by (simp add: example_world_def)
  have g2: "fst (filepath_Glob example_world (filepath_Join example_world ''missing'' ''*.yaml'')) = []"
    by (simp add: example_world_def)
  have j: "filepath_Join example_world ''missing'' ''*.yml'' = ''missing/*.yml''
           \<and> filepath_Join example_world ''missing'' ''*.yaml'' = ''missing/*.yaml''"
    by (simp add: example_world_def)
  from CheckAllWorkflows_nothing_found [OF d g1 g2] j d g1 g2 show ?thesis by simp
qed

subsection \<open>A failing enumeration\<close>

lemma lint_result_ignores_Glob:
  "lint_result (w\<lparr>filepath_Glob := g\<rparr>) filePath bytes = lint_result w filePath bytes"
  by (simp add: lint_result_def linter_options_def setup_calls_def cong: sum.case_cong)

lemma LintWorkflow_ignores_Glob:
  "LintWorkflow (w\<lparr>filepath_Glob := g\<rparr>) params = LintWorkflow w params"
  by (simp add: LintWorkflow_def LintWorkflow_result_def resolve_input_def
                lint_result_ignores_Glob marshal_result_def
           cong: sum.case_cong prod.case_cong)

lemma lint_file_ignores_Glob:
  "lint_file (w\<lparr>filepath_Glob := g\<rparr>) file allResults = lint_file w file allResults"
  by (simp add: lint_file_def LintWorkflow_ignores_Glob
           cong: sum.case_cong prod.case_cong list.case_cong Content.case_cong)

lemma lint_files_ignores_Glob:
  "lint_files (w\<lparr>filepath_Glob := g\<rparr>) files allResults = lint_files w files allResults"
  by (induction files arbitrary: allResults)
     (simp_all add: lint_file_ignores_Glob split: prod.splits)

lemma build_summary_ignores_Glob:
  "build_summary (w\<lparr>filepath_Glob := g\<rparr>) files = build_summary w files"
  by (simp add: build_summary_def lint_files_ignores_Glob)

text \<open>
  Claim C10.  The error of a glob never reaches the caller.  The response of
  \<^verbatim>\<open>CheckAllWorkflows\<close> is the one it gives in the world where every glob returns the
  same matches and no error; an error it returns can only come from rendering the summary;
  and when both globs fail, returning no matches as a failing \<^verbatim>\<open>filepath.Glob\<close> does,
  the response is the text "No workflow files found in " followed by the directory.
\<close>

theorem CheckAllWorkflows_discards_glob_errors:
  "CheckAllWorkflows w params =
     CheckAllWorkflows
       (w\<lparr>filepath_Glob := \<lambda>pattern. (fst (filepath_Glob w pattern), None)\<rparr>) params
   \<and> (\<forall>err. fst (CheckAllWorkflows w params) = Inl err \<longrightarrow>
         prefix ''failed to marshal result: '' err)
   \<and> (\<forall>e1 e2.
         filepath_Glob w (filepath_Join w (effective_directory params) ''*.yml'') = ([], Some e1)
         \<and> filepath_Glob w (filepath_Join w (effective_directory params) ''*.yaml'') = ([], Some e2)
         \<longrightarrow>
         CheckAllWorkflows w params =
           (Inr \<lparr>Content =
                   [TextContent (''No workflow files found in '' @ effective_directory params)]\<rparr>,
            [Call_Glob (filepath_Join w (effective_directory params) ''*.yml''),
             Call_Glob (filepath_Join w (effective_directory params) ''*.yaml'')]))"
proof -
  have erase: "CheckAllWorkflows w params =
     CheckAllWorkflows
       (w\<lparr>filepath_Glob := \<lambda>pattern. (fst (filepath_Glob w pattern), None)\<rparr>) params"
    by (simp add: CheckAllWorkflows_def discover_def Let_def build_summary_ignores_Glob
             split: prod.splits sum.splits)
  have only: "\<forall>err. fst (CheckAllWorkflows w params) = Inl err \<longrightarrow>
         prefix ''failed to marshal result: '' err"
  proof (intro allI impI)
    fix err
    assume "fst (CheckAllWorkflows w params) = Inl err"
    from CheckAllWorkflows_Inl [OF this] show "prefix ''failed to marshal result: '' err"
      by (auto simp only: prefixI)
  qed
  have both: "\<forall>e1 e2.
         filepath_Glob w (filepath_Join w (effective_directory params) ''*.yml'') = ([], Some e1)
         \<and> filepath_Glob w (filepath_Join w (effective_directory params) ''*.yaml'') = ([], Some e2)
         \<longrightarrow>
         CheckAllWorkflows w params =
           (Inr \<lparr>Content =
                   [TextContent (''No workflow files found in '' @ effective_directory params)]\<rparr>,
            [Call_Glob (filepath_Join w (effective_directory params) ''*.yml''),
             Call_Glob (filepath_Join w (effective_directory params) ''*.yaml'')])"
  proof (intro allI impI)
    fix e1 e2
    assume g: "filepath_Glob w (filepath_Join w (effective_directory params) ''*.yml'') = ([], Some e1)
         \<and> filepath_Glob w (filepath_Join w (effective_directory params) ''*.yaml'') = ([], Some e2)"
    then have "fst (discover w (effective_directory params)) = []"
      by (simp add: discover_def Let_def)
    from CheckAllWorkflows_no_files [OF this]
    show "CheckAllWorkflows w params =
           (Inr \<lparr>Content =
                   [TextContent (''No workflow files found in '' @ effective_directory params)]\<rparr>,
            [Call_Glob (filepath_Join w (effective_directory params) ''*.yml''),
             Call_Glob (filepath_Join w (effective_directory params) ''*.yaml'')])"
      by (simp add: discover_def Let_def)
  qed
  from erase only both show ?thesis by (intro conjI)
qed

theorem CheckAllWorkflows_discards_glob_errors_witness:
  "effective_directory \<lparr>directory = ''[''\<rparr> = ''[''
   \<and> filepath_Glob example_world (filepath_Join example_world ''['' ''*.yml'') =
       ([], Some ''syntax error in pattern'')
   \<and> filepath_Glob example_world (filepath_Join example_world ''['' ''*.yaml'') =
       ([], Some ''syntax error in pattern'')
   \<and> CheckAllWorkflows example_world \<lparr>directory = ''[''\<rparr> =
       (Inr \<lparr>Content = [TextContent ''No workflow files found in ['']\<rparr>,
        [Call_Glob ''[/*.yml'', Call_Glob ''[/*.yaml''])"
proof -
  have d: "effective_directory \<lparr>directory = ''[''\<rparr> = ''[''"
    by (simp add: effective_directory_def)
  have g1: "filepath_Glob example_world (filepath_Join example_world ''['' ''*.yml'') =
       ([], Some ''syntax error in pattern'')"
    by (simp add: example_world_def)
  have g2: "filepath_Glob example_world (filepath_Join example_world ''['' ''*.yaml'') =
       ([], Some ''syntax error in pattern'')"
    by (simp add: example_world_def)
  have j: "filepath_Join example_world ''['' ''*.yml'' = ''[/*.yml''
           \<and> filepath_Join example_world ''['' ''*.yaml'' = ''[/*.yaml''"
    by (simp add: example_world_def)
  from CheckAllWorkflows_discards_glob_errors [of example_world "\<lparr>directory = ''[''\<rparr>"]
  have "\<forall>e1 e2.
         filepath_Glob example_world (filepath_Join example_world ''['' ''*.yml'') = ([], Some e1)
         \<and> filepath_Glob example_world (filepath_Join example_world ''['' ''*.yaml'') = ([], Some e2)
         \<longrightarrow>
         CheckAllWorkflows example_world \<lparr>directory = ''[''\<rparr> =
           (Inr \<lparr>Content = [TextContent (''No workflow files found in '' @ ''['')]\<rparr>,
            [Call_Glob (filepath_Join example_world ''['' ''*.yml''),
             Call_Glob (filepath_Join example_world ''['' ''*.yaml'')])"
    unfolding d by blast
  with g1 g2 have "CheckAllWorkflows example_world \<lparr>directory = ''[''\<rparr> =
           (Inr \<lparr>Content = [TextContent (''No workflow files found in '' @ ''['')]\<rparr>,
            [Call_Glob (filepath_Join example_world ''['' ''*.yml''),
             Call_Glob (filepath_Join example_world ''['' ''*.yaml'')])"
    by blast
  with d g1 g2 j show ?thesis by simp
qed

subsection \<open>The loop over the files\<close>

lemma set_update_subset: "set (AList.update k v al) \<subseteq> insert (k, v) (set al)"
  by (induction al) auto

lemma fst_lint_files_Cons:
  "fst (lint_files w (file # files) allResults) =
     fst (lint_files w files (fst (lint_file w file allResults)))"
  by (simp split: prod.splits)

lemma lint_files_invariant:
  assumes "P allResults"
      and "\<And>x all. P all \<Longrightarrow> P (fst (lint_file w x all))"
  shows "P (fst (lint_files w files allResults))"
  using assms(1)
proof (induction files arbitrary: allResults)
  case Nil
  then show ?case by simp
next
  case (Cons x xs)
  from Cons.prems have "P (fst (lint_file w x allResults))" by (rule assms(2))
  then have "P (fst (lint_files w xs (fst (lint_file w x allResults))))"
    by (rule Cons.IH)
  then show ?case by (simp only: fst_lint_files_Cons)
qed

lemma lint_file_failed:
  assumes "fst (LintWorkflow w \<lparr>file_path = file, content = []\<rparr>) = Inl err"
  shows "fst (lint_file w file allResults) =
           AList.update file (failed_result file err) allResults"
  using assms
  by (cases "LintWorkflow w \<lparr>file_path = file, content = []\<rparr>") (simp add: lint_file_def)

lemma lint_file_succeeded:
  assumes "LintWorkflow w \<lparr>file_path = file, content = []\<rparr> = (Inr res, cs)"
  shows "\<exists>result rendered.
           LintWorkflow_result w \<lparr>file_path = file, content = []\<rparr> = (Inr result, cs)
           \<and> json_MarshalIndent_LintResult w result = Inr rendered
           \<and> fst (lint_file w file allResults) =
               (case json_Unmarshal_LintResult w rendered of
                  Inl e \<Rightarrow> allResults
                | Inr lintResult \<Rightarrow> AList.update file lintResult allResults)"
proof -
  from LintWorkflow_Inr [OF assms] obtain result rendered where
    r: "LintWorkflow_result w \<lparr>file_path = file, content = []\<rparr> = (Inr result, cs)" and
    m: "json_MarshalIndent_LintResult w result = Inr rendered" and
    c: "res = \<lparr>Content = [TextContent rendered]\<rparr>"
    by blast
  from assms c have "fst (lint_file w file allResults) =
               (case json_Unmarshal_LintResult w rendered of
                  Inl e \<Rightarrow> allResults
                | Inr lintResult \<Rightarrow> AList.update file lintResult allResults)"
    by (simp add: lint_file_def split: sum.splits)
  with r m show ?thesis by blast
qed

lemma lint_file_stores:
  "fst (lint_file w file allResults) = allResults
   \<or> (\<exists>r. fst (lint_file w file allResults) = AList.update file r allResults)"
proof (cases "LintWorkflow w \<lparr>file_path = file, content = []\<rparr>")
  case (Pair r cs)
  show ?thesis
  proof (cases r)
    case (Inl err)
    with Pair have "fst (LintWorkflow w \<lparr>file_path = file, content = []\<rparr>) = Inl err"
      by simp
    from lint_file_failed [OF this] show ?thesis by blast
  next
    case (Inr res)
    with Pair have "LintWorkflow w \<lparr>file_path = file, content = []\<rparr> = (Inr res, cs)"
      by simp
    from lint_file_succeeded [OF this, of allResults] obtain rendered where
      "fst (lint_file w file allResults) =
               (case json_Unmarshal_LintResult w rendered of
                  Inl e \<Rightarrow> allResults
                | Inr lintResult \<Rightarrow> AList.update file lintResult allResults)"
      by blast
    then show ?thesis
      by (cases "json_Unmarshal_LintResult w rendered") auto
  qed
qed

lemma lint_file_distinct:
  assumes "distinct (map fst allResults)"
  shows "distinct (map fst (fst (lint_file w file allResults)))"
  using lint_file_stores [of w "file" allResults] assms
  by (auto simp: distinct_update)

lemma lint_files_distinct:
  assumes "distinct (map fst allResults)"
  shows "distinct (map fst (fst (lint_files w files allResults)))"
  by (rule lint_files_invariant [where P = "\<lambda>al. distinct (map fst al)"])
     (simp_all add: assms lint_file_distinct)

lemma lint_file_other:
  assumes "k \<noteq> file"
  shows "map_of (fst (lint_file w file allResults)) k = map_of allResults k"
  using lint_file_stores [of w "file" allResults] assms
  by (auto simp: update_conv')

lemma lint_file_keys:
  "fst ` set allResults \<subseteq> fst ` set (fst (lint_file w file allResults))
   \<and> fst ` set (fst (lint_file w file allResults)) \<subseteq> insert file (fst ` set allResults)"
  using lint_file_stores [of w "file" allResults]
proof (elim disjE exE)
  assume "fst (lint_file w file allResults) = allResults"
  then show ?thesis by (simp add: subset_insertI)
next
  fix r
  assume "fst (lint_file w file allResults) = AList.update file r allResults"
  then show ?thesis by (simp add: dom_update subset_insertI)
qed

lemma lint_files_keys:
  "fst ` set allResults \<subseteq> fst ` set (fst (lint_files w files allResults))
   \<and> fst ` set (fst (lint_files w files allResults)) \<subseteq> set files \<union> fst ` set allResults"
proof (induction files arbitrary: allResults)
  case Nil
  then show ?case by simp
next
  case (Cons x xs)
  define A where "A = fst ` set allResults"
  define B where "B = fst ` set (fst (lint_file w x allResults))"
  define C where "C = fst ` set (fst (lint_files w xs (fst (lint_file w x allResults))))"
  from lint_file_keys [of allResults w x] have ab: "A \<subseteq> B" "B \<subseteq> insert x A"
    by (simp_all add: A_def B_def)
  from Cons.IH [of "fst (lint_file w x allResults)"] have bc: "B \<subseteq> C" "C \<subseteq> set xs \<union> B"
    by (simp_all add: B_def C_def)
  from ab bc have "A \<subseteq> C \<and> C \<subseteq> insert x (set xs) \<union> A" by blast
  then show ?case
    by (simp only: fst_lint_files_Cons list.set A_def C_def)
qed

lemma lint_files_failed:
  assumes "fst (LintWorkflow w \<lparr>file_path = f, content = []\<rparr>) = Inl err"
      and "f \<in> set files \<or> map_of allResults f = Some (failed_result f err)"
  shows "map_of (fst (lint_files w files allResults)) f = Some (failed_result f err)"
  using assms(2)
proof (induction files arbitrary: allResults)
  case Nil
  then show ?case by simp
next
  case (Cons x xs)
  have "f \<in> set xs
        \<or> map_of (fst (lint_file w x allResults)) f = Some (failed_result f err)"
  proof (cases "x = f")
    case True
    with lint_file_failed [OF assms(1), of allResults] show ?thesis
      by (simp add: update_conv')
  next
    case False
    with Cons.prems lint_file_other [of f x w allResults] show ?thesis by auto
  qed
  then have "map_of (fst (lint_files w xs (fst (lint_file w x allResults)))) f =
               Some (failed_result f err)"
    by (rule Cons.IH)
  then show ?case by (simp only: fst_lint_files_Cons)
qed

lemma lint_file_decoded:
  assumes "\<And>r rendered. json_MarshalIndent_LintResult w r = Inr rendered \<Longrightarrow>
             \<exists>r'. json_Unmarshal_LintResult w rendered = Inr r'"
  shows "file \<in> fst ` set (fst (lint_file w file allResults))"
proof (cases "LintWorkflow w \<lparr>file_path = file, content = []\<rparr>")
  case (Pair r cs)
  show ?thesis
  proof (cases r)
    case (Inl err)
    with Pair have "fst (LintWorkflow w \<lparr>file_path = file, content = []\<rparr>) = Inl err"
      by simp
    from lint_file_failed [OF this, of allResults] show ?thesis
      by (simp add: dom_update)
  next
    case (Inr res)
    with Pair have "LintWorkflow w \<lparr>file_path = file, content = []\<rparr> = (Inr res, cs)"
      by simp
    from lint_file_succeeded [OF this, of allResults] obtain result rendered where
      m: "json_MarshalIndent_LintResult w result = Inr rendered" and
      l: "fst (lint_file w file allResults) =
               (case json_Unmarshal_LintResult w rendered of
                  Inl e \<Rightarrow> allResults
                | Inr lintResult \<Rightarrow> AList.update file lintResult allResults)"
      by blast
    from assms [OF m] obtain r' where "json_Unmarshal_LintResult w rendered = Inr r'" by blast
    with l show ?thesis by (simp add: dom_update)
  qed
qed

lemma lint_files_decoded:
  assumes "\<And>r rendered. json_MarshalIndent_LintResult w r = Inr rendered \<Longrightarrow>
             \<exists>r'. json_Unmarshal_LintResult w rendered = Inr r'"
  shows "set files \<subseteq> fst ` set (fst (lint_files w files allResults))"
proof (induction files arbitrary: allResults)
  case Nil
  then show ?case by simp
next
  case (Cons x xs)
  define B where "B = fst ` set (fst (lint_file w x allResults))"
  define C where "C = fst ` set (fst (lint_files w xs (fst (lint_file w x allResults))))"
  have "x \<in> B"
    unfolding B_def using assms by (rule lint_file_decoded)
  moreover from lint_files_keys [of "fst (lint_file w x allResults)" w xs] have "B \<subseteq> C"
    by (simp add: B_def C_def)
  moreover from Cons.IH [of "fst (lint_file w x allResults)"] have "set xs \<subseteq> C"
    by (simp add: C_def)
  ultimately have "insert x (set xs) \<subseteq> C" by blast
  then show ?case
    by (simp only: fst_lint_files_Cons list.set C_def)
qed

lemma distinct_keys_one_entry:
  assumes "distinct (map fst xs)" and "k \<in> fst ` set xs"
  shows "length (filter (\<lambda>e. fst e = k) xs) = 1"
  using assms
proof (induction xs)
  case Nil
  then show ?case by simp
next
  case (Cons x xs)
  show ?case
  proof (cases "fst x = k")
    case True
    with Cons.prems(1) have "k \<notin> fst ` set xs" by auto
    then have "filter (\<lambda>e. fst e = k) xs = []"
      by (force simp: filter_empty_conv)
    with True show ?thesis by simp
  next
    case False
    with Cons show ?thesis by auto
  qed
qed

lemma count_errors_results: "results (count_errors es s) = results s"
  by (induction es s rule: count_errors.induct) simp_all

lemma count_errors_files_with_errors:
  "files_with_errors (count_errors es s) =
     files_with_errors s + int (length (filter (\<lambda>(file, result). \<not> Valid result) es))"
  by (induction es s rule: count_errors.induct) simp_all

lemma count_errors_total_errors:
  "total_errors (count_errors es s) =
     total_errors s
       + (\<Sum>(file, result) \<leftarrow> filter (\<lambda>(file, result). \<not> Valid result) es.
            int (length (Errors result)))"
  by (induction es s rule: count_errors.induct) simp_all

lemma build_summary_results:
  "results (fst (build_summary w files)) = fst (lint_files w files [])"
  by (simp add: build_summary_def count_errors_results split: prod.splits)

subsection \<open>The counters of the summary\<close>

lemma lint_file_consistent:
  assumes codec: "\<And>r rendered r'.
             json_MarshalIndent_LintResult w r = Inr rendered \<Longrightarrow>
             json_Unmarshal_LintResult w rendered = Inr r' \<Longrightarrow>
             Valid r' = Valid r \<and> length (Errors r') = length (Errors r)"
      and inv: "\<forall>e \<in> set allResults. Valid (snd e) \<longrightarrow> Errors (snd e) = []"
  shows "\<forall>e \<in> set (fst (lint_file w file allResults)). Valid (snd e) \<longrightarrow> Errors (snd e) = []"
proof (cases "LintWorkflow w \<lparr>file_path = file, content = []\<rparr>")
  case (Pair r cs)
  show ?thesis
  proof (cases r)
    case (Inl err)
    with Pair have "fst (LintWorkflow w \<lparr>file_path = file, content = []\<rparr>) = Inl err"
      by simp
    from lint_file_failed [OF this, of allResults]
         set_update_subset [of "file" "failed_result file err" allResults] inv
    show ?thesis by (auto simp: failed_result_def)
  next
    case (Inr res)
    with Pair have "LintWorkflow w \<lparr>file_path = file, content = []\<rparr> = (Inr res, cs)"
      by simp
    from lint_file_succeeded [OF this, of allResults] obtain result rendered where
      r: "LintWorkflow_result w \<lparr>file_path = file, content = []\<rparr> = (Inr result, cs)" and
      m: "json_MarshalIndent_LintResult w result = Inr rendered" and
      l: "fst (lint_file w file allResults) =
               (case json_Unmarshal_LintResult w rendered of
                  Inl e \<Rightarrow> allResults
                | Inr lintResult \<Rightarrow> AList.update file lintResult allResults)"
      by blast
    from LintWorkflow_result_Inr [OF r] have v: "Valid result \<longleftrightarrow> Errors result = []"
      by auto
    show ?thesis
    proof (cases "json_Unmarshal_LintResult w rendered")
      case (Inl e)
      with l inv show ?thesis by simp
    next
      case (Inr r')
      from codec [OF m Inr] v have "Valid r' \<longrightarrow> Errors r' = []" by auto
      with l Inr inv set_update_subset [of "file" r' allResults] show ?thesis by auto
    qed
  qed
qed

lemma lint_files_consistent:
  assumes codec: "\<And>r rendered r'.
             json_MarshalIndent_LintResult w r = Inr rendered \<Longrightarrow>
             json_Unmarshal_LintResult w rendered = Inr r' \<Longrightarrow>
             Valid r' = Valid r \<and> length (Errors r') = length (Errors r)"
  shows "\<forall>e \<in> set (fst (lint_files w files [])). Valid (snd e) \<longrightarrow> Errors (snd e) = []"
proof (rule lint_files_invariant
         [where P = "\<lambda>al. \<forall>e \<in> set al. Valid (snd e) \<longrightarrow> Errors (snd e) = []"])
  show "\<forall>e \<in> set ([] :: (string \<times> LintResult) list). Valid (snd e) \<longrightarrow> Errors (snd e) = []"
    by simp
next
  fix x and all :: "(string \<times> LintResult) list"
  assume "\<forall>e \<in> set all. Valid (snd e) \<longrightarrow> Errors (snd e) = []"
  with codec show "\<forall>e \<in> set (fst (lint_file w x all)). Valid (snd e) \<longrightarrow> Errors (snd e) = []"
    by (rule lint_file_consistent)
qed

lemma build_summary_counts:
  "files_with_errors (fst (build_summary w files)) =
     int (length (filter (\<lambda>(file, result). \<not> Valid result) (fst (lint_files w files []))))
   \<and> total_errors (fst (build_summary w files)) =
     (\<Sum>(file, result) \<leftarrow> filter (\<lambda>(file, result). \<not> Valid result)
                               (fst (lint_files w files [])).
        int (length (Errors result)))"
  by (simp add: build_summary_def count_errors_files_with_errors count_errors_total_errors
           split: prod.splits)

lemma example_codec:
  assumes "json_MarshalIndent_LintResult example_world r = Inr rendered"
      and "json_Unmarshal_LintResult example_world rendered = Inr r'"
  shows "Valid r' = Valid r \<and> length (Errors r') = length (Errors r)"
  using assms by (auto simp: example_world_def example_marshal_def split: if_splits)

lemma example_decodes:
  assumes "json_MarshalIndent_LintResult example_world r = Inr rendered"
  shows "\<exists>r'. json_Unmarshal_LintResult example_world rendered = Inr r'"
  using assms by (auto simp: example_world_def example_marshal_def)

lemma example_discover:
  "discover example_world (effective_directory \<lparr>directory = ''wf''\<rparr>) =
     (example_files, [Call_Glob ''wf/*.yml'', Call_Glob ''wf/*.yaml''])"
  by (simp add: discover_def effective_directory_def example_world_def example_files_def)

lemma example_lint_file_a:
  "fst (lint_file example_world ''wf/a.yml'' al) =
     AList.update ''wf/a.yml'' \<lparr>Errors = [], Valid = True, FilePath = []\<rparr> al"
  by (simp add: lint_file_def example_defs)

lemma example_lint_file_b:
  "fst (lint_file example_world ''wf/b.yaml'' al) =
     AList.update ''wf/b.yaml''
       \<lparr>Errors = replicate 3 \<lparr>Message = [], Line = 0, Column = 0, Kind = [], Severity = []\<rparr>,
        Valid = False, FilePath = []\<rparr> al"
  by (simp add: lint_file_def example_defs numeral_3_eq_3)

lemma example_lint_file_c:
  "fst (lint_file example_world ''wf/c.yml'' al) =
     AList.update ''wf/c.yml''
       (failed_result ''wf/c.yml'' ''failed to read file: open wf/c.yml: permission denied'') al"
  by (simp add: lint_file_def example_defs)

lemma example_build_summary:
  "fst (build_summary example_world example_files) = example_summary"
proof -
  have "fst (lint_files example_world example_files []) = results example_summary"
    by (simp only: example_files_def fst_lint_files_Cons example_lint_file_a
                   example_lint_file_b example_lint_file_c)
       (simp add: example_summary_def failed_result_def)
  then show ?thesis
    by (simp add: build_summary_def example_summary_def example_files_def
                  numeral_3_eq_3 split: prod.splits)
qed

text \<open>
  Claim C2.  In every summary that \<^verbatim>\<open>CheckAllWorkflows\<close> renders, \<open>files_with_errors\<close>
  is the number of entries of \<open>results\<close> that are not valid, and \<open>total_errors\<close> is the
  sum of the lengths of the \<open>Errors\<close> lists of all entries of \<open>results\<close>.  The loop adds
  a length only for an entry that is not valid; a valid entry has no diagnostics because
  \<^verbatim>\<open>LintWorkflow\<close> computes the flag from them, provided that parsing the JSON of a result
  gives back its flag and its number of diagnostics, which is the first assumption.
\<close>

theorem CheckAllWorkflows_summary_counts:
  assumes codec: "\<And>r rendered r'.
             json_MarshalIndent_LintResult w r = Inr rendered \<Longrightarrow>
             json_Unmarshal_LintResult w rendered = Inr r' \<Longrightarrow>
             Valid r' = Valid r \<and> length (Errors r') = length (Errors r)"
      and found: "discover w (effective_directory params) = (files, cs0)" "files \<noteq> []"
      and built: "build_summary w files = (summary, cs1)"
  shows "CheckAllWorkflows w params =
           (case json_MarshalIndent_Summary w summary of
              Inl err \<Rightarrow> Inl (''failed to marshal result: '' @ err)
            | Inr rendered \<Rightarrow> Inr \<lparr>Content = [TextContent rendered]\<rparr>,
            cs0 @ cs1)
         \<and> files_with_errors summary =
             int (length (filter (\<lambda>(file, result). \<not> Valid result) (results summary)))
         \<and> total_errors summary =
             (\<Sum>(file, result) \<leftarrow> results summary. int (length (Errors result)))"
proof -
  from built have s: "summary = fst (build_summary w files)" by simp
  have res: "results summary = fst (lint_files w files [])"
    by (simp add: s build_summary_results)
  have "\<forall>e \<in> set (fst (lint_files w files [])). Valid (snd e) \<longrightarrow> Errors (snd e) = []"
    using codec by (rule lint_files_consistent)
  then have "\<And>e. e \<in> set (results summary) \<Longrightarrow> \<not> (case e of (file, result) \<Rightarrow> \<not> Valid result)
          \<Longrightarrow> (case e of (file, result) \<Rightarrow> int (length (Errors result))) = 0"
    by (auto simp: res)
  then have "(\<Sum>(file, result) \<leftarrow> filter (\<lambda>(file, result). \<not> Valid result) (results summary).
                int (length (Errors result)))
             = (\<Sum>(file, result) \<leftarrow> results summary. int (length (Errors result)))"
    by (rule sum_list_map_filter)
  with build_summary_counts [of w files] CheckAllWorkflows_files [OF found built]
  show ?thesis by (simp add: s [symmetric] res [symmetric])
qed

theorem CheckAllWorkflows_summary_counts_witness:
  "discover example_world (effective_directory \<lparr>directory = ''wf''\<rparr>) =
     (example_files, [Call_Glob ''wf/*.yml'', Call_Glob ''wf/*.yaml''])
   \<and> example_files \<noteq> []
   \<and> fst (build_summary example_world example_files) = example_summary
   \<and> fst (CheckAllWorkflows example_world \<lparr>directory = ''wf''\<rparr>) =
       Inr \<lparr>Content = [TextContent ''{}'']\<rparr>
   \<and> files_with_errors example_summary = 2
   \<and> int (length (filter (\<lambda>(file, result). \<not> Valid result) (results example_summary))) = 2
   \<and> total_errors example_summary = 4
   \<and> (\<Sum>(file, result) \<leftarrow> results example_summary. int (length (Errors result))) = 4"
proof -
  have ne: "example_files \<noteq> []" by (simp add: example_files_def)
  have b: "build_summary example_world example_files =
             (example_summary, snd (build_summary example_world example_files))"
    by (simp add: example_build_summary [symmetric])
  have m: "json_MarshalIndent_Summary example_world example_summary = Inr ''{}''"
    by (simp add: example_world_def)
  have f: "files_with_errors example_summary = 2" "total_errors example_summary = 4"
    by (simp_all add: example_summary_def)
  from CheckAllWorkflows_summary_counts
         [of example_world, OF example_codec example_discover ne b]
  show ?thesis
    by (simp add: m f example_discover ne example_build_summary)
qed

subsection \<open>One entry per file, also for a file that fails\<close>

text \<open>
  Claim C3.  For a file that the globs found, \<^verbatim>\<open>CheckAllWorkflows\<close> goes on to render the
  summary whatever \<^verbatim>\<open>LintWorkflow\<close> returns for it.  When \<^verbatim>\<open>LintWorkflow\<close> fails on
  the file, the entry under the file's path has exactly one diagnostic, whose message is
  "Failed to lint: " followed by the failure and whose severity is "error", and it is not
  valid; that path is the key of exactly one entry.  When \<^verbatim>\<open>LintWorkflow\<close> succeeds, its
  JSON is parsed back and stored, so the path is the key of exactly one entry provided that
  the JSON of a result parses, which is the premise of the third part.  No entry has a key
  that is not a file found.
\<close>

theorem CheckAllWorkflows_isolates_failures:
  assumes found: "discover w (effective_directory params) = (files, cs0)"
      and built: "build_summary w files = (summary, cs1)"
      and member: "file \<in> set files"
  shows "CheckAllWorkflows w params =
           (case json_MarshalIndent_Summary w summary of
              Inl err \<Rightarrow> Inl (''failed to marshal result: '' @ err)
            | Inr rendered \<Rightarrow> Inr \<lparr>Content = [TextContent rendered]\<rparr>,
            cs0 @ cs1)
         \<and> (\<forall>err. fst (LintWorkflow w \<lparr>file_path = file, content = []\<rparr>) = Inl err \<longrightarrow>
               map_of (results summary) file =
                 Some \<lparr>Errors = [\<lparr>Message = ''Failed to lint: '' @ err, Line = 0, Column = 0,
                                   Kind = [], Severity = ''error''\<rparr>],
                       Valid = False, FilePath = file\<rparr>
               \<and> length (filter (\<lambda>(k, r). k = file) (results summary)) = 1)
         \<and> ((\<forall>r rendered. json_MarshalIndent_LintResult w r = Inr rendered \<longrightarrow>
                 (\<exists>r'. json_Unmarshal_LintResult w rendered = Inr r')) \<longrightarrow>
               length (filter (\<lambda>(k, r). k = file) (results summary)) = 1)
         \<and> fst ` set (results summary) \<subseteq> set files"
proof -
  from built have s: "summary = fst (build_summary w files)" by simp
  have res: "results summary = fst (lint_files w files [])"
    by (simp add: s build_summary_results)
  from member have ne: "files \<noteq> []" by auto
  note response = CheckAllWorkflows_files [OF found ne built]
  have dist: "distinct (map fst (results summary))"
    unfolding res by (rule lint_files_distinct) simp
  have one: "length (filter (\<lambda>(k, r). k = file) (results summary)) = 1"
    if "file \<in> fst ` set (results summary)"
  proof -
    have "(\<lambda>(k, r). k = file) = (\<lambda>e :: string \<times> LintResult. fst e = file)"
      by (simp add: fun_eq_iff)
    with distinct_keys_one_entry [OF dist that] show ?thesis by simp
  qed
  have failing: "\<forall>err. fst (LintWorkflow w \<lparr>file_path = file, content = []\<rparr>) = Inl err \<longrightarrow>
               map_of (results summary) file =
                 Some \<lparr>Errors = [\<lparr>Message = ''Failed to lint: '' @ err, Line = 0, Column = 0,
                                   Kind = [], Severity = ''error''\<rparr>],
                       Valid = False, FilePath = file\<rparr>
               \<and> length (filter (\<lambda>(k, r). k = file) (results summary)) = 1"
  proof (intro allI impI)
    fix err
    assume "fst (LintWorkflow w \<lparr>file_path = file, content = []\<rparr>) = Inl err"
    then have m: "map_of (results summary) file = Some (failed_result file err)"
      unfolding res using member by (intro lint_files_failed) simp_all
    then have "(file, failed_result file err) \<in> set (results summary)"
      by (rule map_of_SomeD)
    then have "file \<in> fst ` set (results summary)"
      by (rule rev_image_eqI) simp
    with m one show "map_of (results summary) file =
                 Some \<lparr>Errors = [\<lparr>Message = ''Failed to lint: '' @ err, Line = 0, Column = 0,
                                   Kind = [], Severity = ''error''\<rparr>],
                       Valid = False, FilePath = file\<rparr>
               \<and> length (filter (\<lambda>(k, r). k = file) (results summary)) = 1"
      by (simp add: failed_result_def)
  qed
  have parsing: "(\<forall>r rendered. json_MarshalIndent_LintResult w r = Inr rendered \<longrightarrow>
                 (\<exists>r'. json_Unmarshal_LintResult w rendered = Inr r')) \<longrightarrow>
               length (filter (\<lambda>(k, r). k = file) (results summary)) = 1"
  proof
    assume "\<forall>r rendered. json_MarshalIndent_LintResult w r = Inr rendered \<longrightarrow>
                 (\<exists>r'. json_Unmarshal_LintResult w rendered = Inr r')"
    then have "\<And>r rendered. json_MarshalIndent_LintResult w r = Inr rendered \<Longrightarrow>
                 \<exists>r'. json_Unmarshal_LintResult w rendered = Inr r'"
      by blast
    then have "set files \<subseteq> fst ` set (fst (lint_files w files []))"
      by (rule lint_files_decoded)
    with member have "file \<in> fst ` set (results summary)"
      unfolding res by (rule subsetD [rotated])
    then show "length (filter (\<lambda>(k, r). k = file) (results summary)) = 1"
      by (rule one)
  qed
  have keys: "fst ` set (results summary) \<subseteq> set files"
    using lint_files_keys [of "[]" w files] by (simp add: res)
  from response failing parsing keys show ?thesis by (intro conjI)
qed

theorem CheckAllWorkflows_isolates_failures_witness:
  "discover example_world (effective_directory \<lparr>directory = ''wf''\<rparr>) =
     (example_files, [Call_Glob ''wf/*.yml'', Call_Glob ''wf/*.yaml''])
   \<and> fst (build_summary example_world example_files) = example_summary
   \<and> ''wf/c.yml'' \<in> set example_files
   \<and> fst (LintWorkflow example_world \<lparr>file_path = ''wf/c.yml'', content = []\<rparr>) =
       Inl ''failed to read file: open wf/c.yml: permission denied''
   \<and> fst (CheckAllWorkflows example_world \<lparr>directory = ''wf''\<rparr>) =
       Inr \<lparr>Content = [TextContent ''{}'']\<rparr>
   \<and> map_of (results example_summary) ''wf/c.yml'' =
       Some \<lparr>Errors =
               [\<lparr>Message = ''Failed to lint: failed to read file: open wf/c.yml: permission denied'',
                 Line = 0, Column = 0, Kind = [], Severity = ''error''\<rparr>],
             Valid = False, FilePath = ''wf/c.yml''\<rparr>
   \<and> length (filter (\<lambda>(k, r). k = ''wf/c.yml'') (results example_summary)) = 1
   \<and> ''wf/a.yml'' \<in> set example_files
   \<and> length (filter (\<lambda>(k, r). k = ''wf/a.yml'') (results example_summary)) = 1"
proof -
  have b: "build_summary example_world example_files =
             (example_summary, snd (build_summary example_world example_files))"
    by (simp add: example_build_summary [symmetric])
  have c: "''wf/c.yml'' \<in> set example_files" and a: "''wf/a.yml'' \<in> set example_files"
    by (simp_all add: example_files_def)
  have l: "fst (LintWorkflow example_world \<lparr>file_path = ''wf/c.yml'', content = []\<rparr>) =
       Inl ''failed to read file: open wf/c.yml: permission denied''"
    by (simp add: example_defs)
  have m: "json_MarshalIndent_Summary example_world example_summary = Inr ''{}''"
    by (simp add: example_world_def)
  have d: "\<forall>r rendered. json_MarshalIndent_LintResult example_world r = Inr rendered \<longrightarrow>
             (\<exists>r'. json_Unmarshal_LintResult example_world rendered = Inr r')"
    using example_decodes by blast
  from CheckAllWorkflows_isolates_failures [OF example_discover b c] l m
  have failing: "fst (CheckAllWorkflows example_world \<lparr>directory = ''wf''\<rparr>) =
       Inr \<lparr>Content = [TextContent ''{}'']\<rparr>
     \<and> map_of (results example_summary) ''wf/c.yml'' =
       Some \<lparr>Errors =
               [\<lparr>Message = ''Failed to lint: failed to read file: open wf/c.yml: permission denied'',
                 Line = 0, Column = 0, Kind = [], Severity = ''error''\<rparr>],
             Valid = False, FilePath = ''wf/c.yml''\<rparr>
     \<and> length (filter (\<lambda>(k, r). k = ''wf/c.yml'') (results example_summary)) = 1"
    by simp
  from CheckAllWorkflows_isolates_failures [OF example_discover b a] d
  have "length (filter (\<lambda>(k, r). k = ''wf/a.yml'') (results example_summary)) = 1"
    by blast
  with failing example_discover example_build_summary c a l show ?thesis by simp
qed

end
